theory Spec2Isabelle
  imports Main
begin

section \<open>Errors, panics and notices\<close>

text \<open>
  A Go \<^verbatim>\<open>error\<close> value. \<^verbatim>\<open>errors.New(msg)\<close> is \<open>ErrorsNew msg\<close>; an error
  handed back by a library call (network, JSON, base64, X.509, RSA) is a
  \<open>LibraryError\<close> carrying its message.
\<close>

text \<open>
  Modelled from the spec: \<^verbatim>\<open>ContextError\<close> is defined elsewhere in the repository
  (the spec has it as "generic error-context wrapping"). It is the constructor
  \<open>ContextError\<close>: the error it returns keeps the wrapped error as its detail.
\<close>

datatype error =
    ErrorsNew string
  | LibraryError string
  | ContextError error

text \<open>
  A function that returns \<^verbatim>\<open>err error\<close> returns \<open>None\<close> for \<^verbatim>\<open>nil\<close> and
  \<open>Some e\<close> otherwise. A run-time panic is not a return value: a call either
  \<open>Returns\<close> or \<open>Panics\<close>.
\<close>

datatype go_panic = NilPointerDereference | IndexOutOfRange

datatype 'a exec = Returns 'a | Panics go_panic

text \<open>
  Modelled from the spec: \<^verbatim>\<open>NoticeInfo\<close> and \<^verbatim>\<open>NoticeAlert\<close> are defined
  elsewhere in the repository (the spec has them as the two logging severities,
  informational and alert). A call of either is recorded with its message.
\<close>

datatype notice = NoticeInfo string | NoticeAlert string


section \<open>The connection registry \<^verbatim>\<open>Conns\<close>\<close>

text \<open>
  \<^verbatim>\<open>type Conns struct { mutex sync.Mutex; isClosed bool; conns map[net.Conn]bool }\<close>

  Every method holds the mutex from entry to exit, so each is one atomic
  transition of the state \<open>(isClosed, conns)\<close>. A Go map may be \<^verbatim>\<open>nil\<close>
  (the zero value of the struct): \<open>conns = None\<close>. Connections are compared
  by identity; \<open>'c\<close> is the type of connection handles.
\<close>

record 'c Conns =
  isClosed :: bool
  conns :: "('c \<rightharpoonup> bool) option"

text \<open>What a method does to the world outside the registry, in order.\<close>

datatype 'c effect =
    ConnClose 'c "error option"  \<comment> \<open>\<^verbatim>\<open>conn.Close()\<close> was called and returned this\<close>
  | Notice notice

definition members :: "'c Conns \<Rightarrow> 'c set" where
  "members s = (case conns s of None \<Rightarrow> {} | Some m \<Rightarrow> dom m)"

definition Reset :: "'c Conns \<Rightarrow> 'c Conns" where
  "Reset s = s\<lparr>isClosed := False, conns := Some Map.empty\<rparr>"

definition Add :: "'c \<Rightarrow> 'c Conns \<Rightarrow> 'c Conns \<times> bool" where
  "Add conn s =
     (if isClosed s then (s, False)
      else
        let m = (case conns s of None \<Rightarrow> Map.empty | Some m \<Rightarrow> m)
        in (s\<lparr>conns := Some (m(conn \<mapsto> True))\<rparr>, True))"

text \<open>\<^verbatim>\<open>delete\<close> on a nil map is a no-op.\<close>

definition Remove :: "'c \<Rightarrow> 'c Conns \<Rightarrow> 'c Conns" where
  "Remove conn s =
     (case conns s of
        None \<Rightarrow> s
      | Some m \<Rightarrow> s\<lparr>conns := Some (m(conn := None))\<rparr>)"

text \<open>
  The body of \<^verbatim>\<open>for conn, _ := range conns.conns { conn.Close() }\<close>: Close is
  called on each key in turn and what it returns is dropped. \<open>close\<close> gives
  the value each connection's Close returns; \<open>ks\<close> is the sequence in which
  \<^verbatim>\<open>range\<close> yields the keys.
\<close>

fun close_each :: "('c \<Rightarrow> error option) \<Rightarrow> 'c list \<Rightarrow> 'c effect list" where
  "close_each close [] = []"
| "close_each close (conn # ks) = ConnClose conn (close conn) # close_each close ks"

text \<open>
  Go leaves the iteration order of \<^verbatim>\<open>range\<close> over a map unspecified, but
  yields every key exactly once: \<open>ks\<close> is any such enumeration.
\<close>

definition range_order :: "'c Conns \<Rightarrow> 'c list \<Rightarrow> bool" where
  "range_order s ks = (distinct ks \<and> set ks = members s)"

definition CloseAll :: "('c \<Rightarrow> error option) \<Rightarrow> 'c list \<Rightarrow> 'c Conns \<Rightarrow> 'c Conns \<times> 'c effect list" where
  "CloseAll close ks s =
     (let s1 = s\<lparr>isClosed := True\<rparr>;
          effects = close_each close ks
      in (s1\<lparr>conns := Some Map.empty\<rparr>, effects))"

text \<open>How often Close was called on \<open>conn\<close> in a sequence of effects.\<close>

fun is_close_of :: "'c \<Rightarrow> 'c effect \<Rightarrow> bool" where
  "is_close_of conn (ConnClose c r) = (c = conn)"
| "is_close_of conn (Notice n) = False"

definition close_count :: "'c \<Rightarrow> 'c effect list \<Rightarrow> nat" where
  "close_count conn effects = length (filter (is_close_of conn) effects)"

fun is_alert :: "'c effect \<Rightarrow> bool" where
  "is_alert (Notice (NoticeAlert msg)) = True"
| "is_alert e = False"

text \<open>Calls on the registry other than Reset, and running a sequence of them.\<close>

datatype 'c call =
    CallAdd 'c
  | CallRemove 'c
  | CallCloseAll "'c \<Rightarrow> error option" "'c list"

fun do_call :: "'c call \<Rightarrow> 'c Conns \<Rightarrow> 'c Conns" where
  "do_call (CallAdd conn) s = fst (Add conn s)"
| "do_call (CallRemove conn) s = Remove conn s"
| "do_call (CallCloseAll close ks) s = fst (CloseAll close ks s)"

fun do_calls :: "'c call list \<Rightarrow> 'c Conns \<Rightarrow> 'c Conns" where
  "do_calls [] s = s"
| "do_calls (c # cs) s = do_calls cs (do_call c s)"


subsection \<open>Properties of the registry\<close>

lemma close_count_close_each:
  "close_count conn (close_each close ks) = count_list ks conn"
  by (induction ks) (simp_all add: close_count_def)

lemma count_list_distinct:
  "distinct ks \<Longrightarrow> count_list ks x = (if x \<in> set ks then 1 else 0)"
  by (induction ks) auto

text \<open>A map in Go holds finitely many keys, so an enumeration always exists.\<close>

lemma range_order_exists: "finite (members s) \<Longrightarrow> \<exists>ks. range_order s ks"
  unfolding range_order_def using finite_distinct_list [of "members s"] by blast

lemma do_call_closed: "isClosed s \<Longrightarrow> isClosed (do_call c s)"
  by (cases c) (simp_all add: Add_def Remove_def CloseAll_def split: option.splits)

lemma do_calls_closed: "isClosed s \<Longrightarrow> isClosed (do_calls cs s)"
  by (induction cs arbitrary: s) (simp_all add: do_call_closed)

lemma alerts_close_each: "filter is_alert (close_each close ks) = []"
  by (induction ks) simp_all

text \<open>
  C5. Add on an open registry returns true and the connection is a member
  afterwards (the membership grows by exactly that connection); Add on a
  closed registry returns false and leaves the registry as it was.
\<close>

theorem Add_open_or_closed:
  "(\<not> isClosed s \<longrightarrow>
      snd (Add conn s) \<and> conn \<in> members (fst (Add conn s)) \<and>
      members (fst (Add conn s)) = insert conn (members s)) \<and>
   (isClosed s \<longrightarrow> \<not> snd (Add conn s) \<and> fst (Add conn s) = s)"
  by (simp add: Add_def members_def split: option.splits)

theorem Add_open_or_closed_witness:
  "snd (Add (7::nat) \<lparr>isClosed = False, conns = None\<rparr>) \<and>
   (7::nat) \<in> members (fst (Add 7 \<lparr>isClosed = False, conns = None\<rparr>)) \<and>
   \<not> snd (Add (7::nat) \<lparr>isClosed = True, conns = Some [3 \<mapsto> True]\<rparr>) \<and>
   members (fst (Add (7::nat) \<lparr>isClosed = True, conns = Some [3 \<mapsto> True]\<rparr>)) = {3}"
  using Add_open_or_closed [of "\<lparr>isClosed = False, conns = None\<rparr>" "7::nat"]
        Add_open_or_closed [of "\<lparr>isClosed = True, conns = Some [3 \<mapsto> True]\<rparr>" "7::nat"]
  by (simp add: members_def)

text \<open>
  C4. CloseAll marks the registry closed, calls Close exactly once on every
  connection that was a member when it was called (and on no other), and
  leaves the membership empty; afterwards, whatever sequence of Add, Remove
  and CloseAll calls follows (no Reset among them), Add returns false.
\<close>

theorem CloseAll_closes_each_member_once:
  assumes "range_order s ks"
  shows "isClosed (fst (CloseAll close ks s)) \<and>
         members (fst (CloseAll close ks s)) = {} \<and>
         (\<forall>conn. close_count conn (snd (CloseAll close ks s)) =
                   (if conn \<in> members s then 1 else 0)) \<and>
         (\<forall>cs conn. \<not> snd (Add conn (do_calls cs (fst (CloseAll close ks s)))))"
proof -
  let ?s' = "fst (CloseAll close ks s)"
  have closed: "isClosed ?s'"
    by (simp add: CloseAll_def)
  have emptied: "members ?s' = {}"
    by (simp add: CloseAll_def members_def)
  have once: "close_count conn (snd (CloseAll close ks s)) =
              (if conn \<in> members s then 1 else 0)" for conn
  proof -
    have "close_count conn (snd (CloseAll close ks s)) = count_list ks conn"
      by (simp add: CloseAll_def close_count_close_each)
    also have "\<dots> = (if conn \<in> set ks then 1 else 0)"
      using assms by (simp add: range_order_def count_list_distinct)
    finally show ?thesis
      using assms by (simp add: range_order_def)
  qed
  have refused: "\<not> snd (Add conn (do_calls cs ?s'))" for cs conn
  proof -
    have "isClosed (do_calls cs ?s')"
      using closed by (rule do_calls_closed)
    then show ?thesis
      by (simp add: Add_def)
  qed
  from closed emptied once refused show ?thesis
    by blast
qed

theorem CloseAll_closes_each_member_once_witness:
  "range_order \<lparr>isClosed = False, conns = Some [1 \<mapsto> True, 2 \<mapsto> True]\<rparr> [2, 1::nat] \<and>
   isClosed (fst (CloseAll (\<lambda>c. None) [2, 1::nat]
                    \<lparr>isClosed = False, conns = Some [1 \<mapsto> True, 2 \<mapsto> True]\<rparr>)) \<and>
   close_count 1 (snd (CloseAll (\<lambda>c. None) [2, 1::nat]
                    \<lparr>isClosed = False, conns = Some [1 \<mapsto> True, 2 \<mapsto> True]\<rparr>)) = 1 \<and>
   close_count 3 (snd (CloseAll (\<lambda>c. None) [2, 1::nat]
                    \<lparr>isClosed = False, conns = Some [1 \<mapsto> True, 2 \<mapsto> True]\<rparr>)) = 0 \<and>
   \<not> snd (Add 5 (do_calls [CallAdd 4, CallRemove 1]
                 (fst (CloseAll (\<lambda>c. None) [2, 1::nat]
                    \<lparr>isClosed = False, conns = Some [1 \<mapsto> True, 2 \<mapsto> True]\<rparr>))))"
proof -
  let ?s = "\<lparr>isClosed = False, conns = Some [1 \<mapsto> True, 2 \<mapsto> (True::bool)]\<rparr> :: nat Conns"
  have h: "range_order ?s [2, 1]"
    by (auto simp add: range_order_def members_def)
  have m: "members ?s = {1, 2}"
    by (auto simp add: members_def)
  note T = CloseAll_closes_each_member_once [OF h, of "\<lambda>c. None"]
  from T have "\<not> snd (Add 5 (do_calls [CallAdd 4, CallRemove 1]
                   (fst (CloseAll (\<lambda>c. None) [2, 1] ?s))))"
    by blast
  with T h m show ?thesis
    by simp
qed

text \<open>
  C6. Reset clears the closed flag and empties the membership, from every
  state; in particular from the state CloseAll leaves, and from any state
  reached from there. Immediately afterwards the membership is empty and
  Add succeeds.
\<close>

theorem Reset_reopens_and_empties:
  "\<not> isClosed (Reset s) \<and> members (Reset s) = {} \<and> snd (Add conn (Reset s)) \<and>
   \<not> isClosed (Reset (do_calls cs (fst (CloseAll close ks s)))) \<and>
   members (Reset (do_calls cs (fst (CloseAll close ks s)))) = {} \<and>
   snd (Add conn (Reset (do_calls cs (fst (CloseAll close ks s)))))"
  by (simp add: Reset_def Add_def members_def)

text \<open>
  C10, as the code has it. Whatever the individual Close calls return,
  CloseAll calls Close on every key that \<^verbatim>\<open>range\<close> yields, in that order, so
  on every member exactly once, and empties the membership. What Close
  returns is dropped: CloseAll has no result to carry it and writes no
  notice, alert or other.
\<close>

theorem CloseAll_drops_close_errors:
  assumes "range_order s ks"
  shows "snd (CloseAll close ks s) = map (\<lambda>conn. ConnClose conn (close conn)) ks \<and>
         (\<forall>conn \<in> members s. close_count conn (snd (CloseAll close ks s)) = 1) \<and>
         members (fst (CloseAll close ks s)) = {} \<and>
         filter is_alert (snd (CloseAll close ks s)) = []"
proof -
  have trace: "close_each close ks = map (\<lambda>conn. ConnClose conn (close conn)) ks"
    by (induction ks) simp_all
  have once: "close_count conn (snd (CloseAll close ks s)) = 1" if "conn \<in> members s" for conn
    using assms that
    by (simp add: CloseAll_def close_count_close_each range_order_def count_list_distinct)
  show ?thesis
    using trace once
    by (simp add: CloseAll_def members_def alerts_close_each)
qed

theorem CloseAll_drops_close_errors_witness:
  "range_order \<lparr>isClosed = False, conns = Some [1 \<mapsto> True, 2 \<mapsto> True]\<rparr> [1, 2::nat] \<and>
   snd (CloseAll [1 \<mapsto> LibraryError ''use of closed network connection''] [1, 2::nat]
          \<lparr>isClosed = False, conns = Some [1 \<mapsto> True, 2 \<mapsto> True]\<rparr>) =
     [ConnClose 1 (Some (LibraryError ''use of closed network connection'')), ConnClose 2 None] \<and>
   close_count 2 (snd (CloseAll [1 \<mapsto> LibraryError ''use of closed network connection''] [1, 2::nat]
          \<lparr>isClosed = False, conns = Some [1 \<mapsto> True, 2 \<mapsto> True]\<rparr>)) = 1 \<and>
   members (fst (CloseAll [1 \<mapsto> LibraryError ''use of closed network connection''] [1, 2::nat]
          \<lparr>isClosed = False, conns = Some [1 \<mapsto> True, 2 \<mapsto> True]\<rparr>)) = {}"
proof -
  let ?s = "\<lparr>isClosed = False, conns = Some [1 \<mapsto> True, 2 \<mapsto> (True::bool)]\<rparr> :: nat Conns"
  have h: "range_order ?s [1, 2]"
    by (auto simp add: range_order_def members_def)
  have m: "members ?s = {1, 2}"
    by (auto simp add: members_def)
  from CloseAll_drops_close_errors
         [OF h, of "[1 \<mapsto> LibraryError ''use of closed network connection'']"] h m
  show ?thesis
    by (simp add: close_count_def)
qed

text \<open>
  The claim that a failing Close is logged as an alert does not hold: here the
  first connection's Close fails, and the effects of CloseAll are the two Close
  calls and nothing else; no alert is among them.
\<close>

theorem CloseAll_close_error_not_logged:
  "filter is_alert
     (snd (CloseAll [1 \<mapsto> LibraryError ''use of closed network connection''] [1, 2::nat]
             \<lparr>isClosed = False, conns = Some [1 \<mapsto> True, 2 \<mapsto> True]\<rparr>)) = [] \<and>
   snd (CloseAll [1 \<mapsto> LibraryError ''use of closed network connection''] [1, 2::nat]
          \<lparr>isClosed = False, conns = Some [1 \<mapsto> True, 2 \<mapsto> True]\<rparr>) =
     [ConnClose 1 (Some (LibraryError ''use of closed network connection'')), ConnClose 2 None]"
  by (simp add: CloseAll_def)


section \<open>Validating the signed remote server list\<close>

text \<open>
  \<^verbatim>\<open>type RemoteServerList struct { Data, SigningPublicKeyDigest, Signature string }\<close>
  and the fields of \<^verbatim>\<open>Config\<close> that this code reads. \<^verbatim>\<open>BindToDeviceProvider\<close> is
  an interface value: nil or a reference.
\<close>

record RemoteServerList =
  Data :: string
  SigningPublicKeyDigest :: string
  Signature :: string

record Config =
  RemoteServerListUrl :: string
  RemoteServerListSignaturePublicKey :: string
  UpstreamHttpProxyAddress :: string
  BindToDeviceProvider :: "nat option"
  BindToDeviceDnsServer :: string

text \<open>
  The standard library is not part of the repository; the calls the code makes
  into it are parameters. \<^verbatim>\<open>x509.ParsePKIXPublicKey\<close> returns a key of one of
  several types, and the code's type assertion \<^verbatim>\<open>publicKey.(*rsa.PublicKey)\<close>
  holds for the first only. \<open>sha256_Sum data\<close> is
  \<^verbatim>\<open>hash := sha256.New(); hash.Write([]byte(data)); hash.Sum(nil)\<close>.
\<close>

datatype rsa_PublicKey = RsaKey (modulus: nat) (exponent: nat)

datatype PublicKey =
    RSAPublicKey rsa_PublicKey
  | DSAPublicKey
  | ECDSAPublicKey

datatype crypto_Hash = MD5 | SHA1 | SHA256 | SHA512

record crypto_lib =
  base64_DecodeString :: "string \<Rightarrow> error + string"
  x509_ParsePKIXPublicKey :: "string \<Rightarrow> error + PublicKey"
  sha256_Sum :: "string \<Rightarrow> string"
  rsa_VerifyPKCS1v15 :: "rsa_PublicKey \<Rightarrow> crypto_Hash \<Rightarrow> string \<Rightarrow> string \<Rightarrow> error option"

text \<open>
  \<open>remoteServerList\<close> is a pointer, \<open>None\<close> when nil; reading its
  \<^verbatim>\<open>Signature\<close> field is the first dereference, after the key has been
  decoded, parsed and found to be an RSA key.
\<close>

definition validateRemoteServerList ::
    "crypto_lib \<Rightarrow> Config \<Rightarrow> RemoteServerList option \<Rightarrow> error option exec" where
  "validateRemoteServerList L config remoteServerList =
     (case base64_DecodeString L (RemoteServerListSignaturePublicKey config) of
        Inl err \<Rightarrow> Returns (Some (ContextError err))
      | Inr derEncodedPublicKey \<Rightarrow>
     (case x509_ParsePKIXPublicKey L derEncodedPublicKey of
        Inl err \<Rightarrow> Returns (Some (ContextError err))
      | Inr publicKey \<Rightarrow>
     (case publicKey of
        RSAPublicKey rsaPublicKey \<Rightarrow>
          (case remoteServerList of
             None \<Rightarrow> Panics NilPointerDereference
           | Some rsl \<Rightarrow>
          (case base64_DecodeString L (Signature rsl) of
             Inl err \<Rightarrow> Returns (Some (ContextError err))
           | Inr signature \<Rightarrow>
               (let digest = sha256_Sum L (Data rsl)
                in case rsa_VerifyPKCS1v15 L rsaPublicKey SHA256 digest signature of
                     Some err \<Rightarrow> Returns (Some (ContextError err))
                   | None \<Rightarrow> Returns None)))
      | _ \<Rightarrow>
          Returns (Some (ContextError
            (ErrorsNew ''unexpected RemoteServerListSignaturePublicKey key type''))))))"

text \<open>
  A stand-in for the library, to run the definitions on concrete inputs: base64
  text is its own decoding unless it holds a \<open>!\<close>, the DER text \<open>RSA\<close>
  parses to an RSA key and \<open>EC\<close> to an elliptic-curve key, the digest of a
  text is the text behind a \<open>#\<close>, and a signature verifies when it equals
  the digest.
\<close>

definition stub_crypto :: crypto_lib where
  "stub_crypto =
     \<lparr> base64_DecodeString =
         (\<lambda>s. if CHR ''!'' \<in> set s then Inl (LibraryError ''illegal base64 data'') else Inr s),
       x509_ParsePKIXPublicKey =
         (\<lambda>der. if der = ''RSA'' then Inr (RSAPublicKey (RsaKey 3233 17))
                else if der = ''EC'' then Inr ECDSAPublicKey
                else Inl (LibraryError ''asn1: syntax error'')),
       sha256_Sum = (\<lambda>data. ''#'' @ data),
       rsa_VerifyPKCS1v15 =
         (\<lambda>key h digest signature.
            if h = SHA256 \<and> signature = digest then None
            else Some (LibraryError ''crypto/rsa: verification error'')) \<rparr>"

definition stub_config :: "string \<Rightarrow> string \<Rightarrow> Config" where
  "stub_config url key =
     \<lparr> RemoteServerListUrl = url, RemoteServerListSignaturePublicKey = key,
       UpstreamHttpProxyAddress = [], BindToDeviceProvider = None,
       BindToDeviceDnsServer = [] \<rparr>"


subsection \<open>Properties of validation\<close>

text \<open>
  C2. On a record, validation succeeds exactly when the configured key decodes
  from base64, parses as a PKIX public key, that key is an RSA key, the record's
  signature decodes from base64, and PKCS#1 v1.5 verification with SHA-256 accepts
  the decoded signature for the SHA-256 digest of the record's Data. Each failure
  is returned as a contextualized error: of the failing call, or, for a key of
  another type, the code's own "unexpected key type" error.
\<close>

theorem validateRemoteServerList_succeeds_iff:
  "(validateRemoteServerList L config (Some rsl) = Returns None) =
     (\<exists>der key sg.
        base64_DecodeString L (RemoteServerListSignaturePublicKey config) = Inr der \<and>
        x509_ParsePKIXPublicKey L der = Inr (RSAPublicKey key) \<and>
        base64_DecodeString L (Signature rsl) = Inr sg \<and>
        rsa_VerifyPKCS1v15 L key SHA256 (sha256_Sum L (Data rsl)) sg = None) \<and>
   (validateRemoteServerList L config (Some rsl) = Returns None \<or>
    (\<exists>e. validateRemoteServerList L config (Some rsl) = Returns (Some (ContextError e)))) \<and>
   (\<forall>der key.
      base64_DecodeString L (RemoteServerListSignaturePublicKey config) = Inr der \<longrightarrow>
      x509_ParsePKIXPublicKey L der = Inr key \<longrightarrow>
      (\<forall>k. key \<noteq> RSAPublicKey k) \<longrightarrow>
      validateRemoteServerList L config (Some rsl) =
        Returns (Some (ContextError
          (ErrorsNew ''unexpected RemoteServerListSignaturePublicKey key type''))))"
proof (intro conjI allI impI)
  show "(validateRemoteServerList L config (Some rsl) = Returns None) =
     (\<exists>der key sg.
        base64_DecodeString L (RemoteServerListSignaturePublicKey config) = Inr der \<and>
        x509_ParsePKIXPublicKey L der = Inr (RSAPublicKey key) \<and>
        base64_DecodeString L (Signature rsl) = Inr sg \<and>
        rsa_VerifyPKCS1v15 L key SHA256 (sha256_Sum L (Data rsl)) sg = None)"
    by (auto simp add: validateRemoteServerList_def
             split: sum.splits PublicKey.splits option.splits)
next
  show "validateRemoteServerList L config (Some rsl) = Returns None \<or>
    (\<exists>e. validateRemoteServerList L config (Some rsl) = Returns (Some (ContextError e)))"
    by (simp add: validateRemoteServerList_def
             split: sum.splits PublicKey.splits option.splits)
next
  fix der key
  assume "base64_DecodeString L (RemoteServerListSignaturePublicKey config) = Inr der"
    and "x509_ParsePKIXPublicKey L der = Inr key"
    and "\<forall>k. key \<noteq> RSAPublicKey k"
  then show "validateRemoteServerList L config (Some rsl) =
        Returns (Some (ContextError
          (ErrorsNew ''unexpected RemoteServerListSignaturePublicKey key type'')))"
    by (cases key) (simp_all add: validateRemoteServerList_def)
qed

theorem validateRemoteServerList_succeeds_iff_witness:
  "validateRemoteServerList stub_crypto (stub_config ''u'' ''RSA'')
     (Some \<lparr>Data = ''servers'', SigningPublicKeyDigest = [], Signature = ''#servers''\<rparr>) =
   Returns None \<and>
   validateRemoteServerList stub_crypto (stub_config ''u'' ''EC'')
     (Some \<lparr>Data = ''servers'', SigningPublicKeyDigest = [], Signature = ''#servers''\<rparr>) =
   Returns (Some (ContextError
     (ErrorsNew ''unexpected RemoteServerListSignaturePublicKey key type''))) \<and>
   validateRemoteServerList stub_crypto (stub_config ''u'' ''RSA'')
     (Some \<lparr>Data = ''servers'', SigningPublicKeyDigest = [], Signature = ''#tampered''\<rparr>) \<noteq>
   Returns None"
proof -
  let ?good = "\<lparr>Data = ''servers'', SigningPublicKeyDigest = [], Signature = ''#servers''\<rparr>"
  let ?bad = "\<lparr>Data = ''servers'', SigningPublicKeyDigest = [], Signature = ''#tampered''\<rparr>"
  note T1 = validateRemoteServerList_succeeds_iff [of stub_crypto "stub_config ''u'' ''RSA''" ?good]
  note T2 = validateRemoteServerList_succeeds_iff [of stub_crypto "stub_config ''u'' ''EC''" ?good]
  note T3 = validateRemoteServerList_succeeds_iff [of stub_crypto "stub_config ''u'' ''RSA''" ?bad]
  have "validateRemoteServerList stub_crypto (stub_config ''u'' ''RSA'') (Some ?good) = Returns None"
    using T1 by (simp add: stub_crypto_def stub_config_def)
  moreover have "validateRemoteServerList stub_crypto (stub_config ''u'' ''EC'') (Some ?good) =
      Returns (Some (ContextError
        (ErrorsNew ''unexpected RemoteServerListSignaturePublicKey key type'')))"
    using T2 by (simp add: stub_crypto_def stub_config_def)
  moreover have "validateRemoteServerList stub_crypto (stub_config ''u'' ''RSA'') (Some ?bad) \<noteq>
      Returns None"
    using T3 by (simp add: stub_crypto_def stub_config_def)
  ultimately show ?thesis by simp
qed

text \<open>
  C3. Two records with the same Data and the same Signature get the same result,
  whatever their SigningPublicKeyDigest fields hold: validation never reads it.
\<close>

theorem validateRemoteServerList_ignores_digest:
  assumes "Data r1 = Data r2" and "Signature r1 = Signature r2"
  shows "validateRemoteServerList L config (Some r1) =
         validateRemoteServerList L config (Some r2)"
  using assms
  by (simp add: validateRemoteServerList_def split: sum.split PublicKey.split)

theorem validateRemoteServerList_ignores_digest_witness:
  "Data \<lparr>Data = ''servers'', SigningPublicKeyDigest = ''digest-of-key-A'', Signature = ''#servers''\<rparr> =
     Data \<lparr>Data = ''servers'', SigningPublicKeyDigest = ''digest-of-key-B'', Signature = ''#servers''\<rparr> \<and>
   Signature \<lparr>Data = ''servers'', SigningPublicKeyDigest = ''digest-of-key-A'', Signature = ''#servers''\<rparr> =
     Signature \<lparr>Data = ''servers'', SigningPublicKeyDigest = ''digest-of-key-B'', Signature = ''#servers''\<rparr> \<and>
   validateRemoteServerList stub_crypto (stub_config ''u'' ''RSA'')
     (Some \<lparr>Data = ''servers'', SigningPublicKeyDigest = ''digest-of-key-A'', Signature = ''#servers''\<rparr>) =
   validateRemoteServerList stub_crypto (stub_config ''u'' ''RSA'')
     (Some \<lparr>Data = ''servers'', SigningPublicKeyDigest = ''digest-of-key-B'', Signature = ''#servers''\<rparr>) \<and>
   validateRemoteServerList stub_crypto (stub_config ''u'' ''RSA'')
     (Some \<lparr>Data = ''servers'', SigningPublicKeyDigest = ''digest-of-key-B'', Signature = ''#servers''\<rparr>) =
   Returns None"
proof -
  let ?r1 = "\<lparr>Data = ''servers'', SigningPublicKeyDigest = ''digest-of-key-A'', Signature = ''#servers''\<rparr>"
  let ?r2 = "\<lparr>Data = ''servers'', SigningPublicKeyDigest = ''digest-of-key-B'', Signature = ''#servers''\<rparr>"
  have d: "Data ?r1 = Data ?r2" by simp
  have g: "Signature ?r1 = Signature ?r2" by simp
  have ok: "validateRemoteServerList stub_crypto (stub_config ''u'' ''RSA'') (Some ?r2) = Returns None"
    by (simp add: validateRemoteServerList_def stub_crypto_def stub_config_def)
  from validateRemoteServerList_ignores_digest
         [OF d g, of stub_crypto "stub_config ''u'' ''RSA''"] ok
  show ?thesis by simp
qed



section \<open>Fetching the remote server list\<close>

text \<open>
  The \<^verbatim>\<open>DialConfig\<close> that FetchRemoteServerList builds: the upstream proxy
  address, the pending-connections registry (a pointer), the device binder and
  its DNS server. The timeouts of the struct are left at their zero values by
  this caller.
\<close>

datatype DialConfig = DialConfig string nat "nat option" string

text \<open>
  The collaborators of the fetch, as parameters. \<open>httpClient_Get dialConfig url\<close>
  is \<^verbatim>\<open>httpClient.Get(url)\<close> on the client whose transport dials through
  \<^verbatim>\<open>NewTCPDialer(dialConfig)\<close> under \<^verbatim>\<open>FETCH_REMOTE_SERVER_LIST_TIMEOUT\<close>;
  \<open>'r\<close> is the response it returns. \<open>json_Unmarshal body\<close> is
  \<^verbatim>\<open>json.Unmarshal(body, &remoteServerList)\<close> into a nil
  \<^verbatim>\<open>*RemoteServerList\<close>: it leaves the pointer nil for the JSON text \<^verbatim>\<open>null\<close>.
  \<^verbatim>\<open>DecodeAndValidateServerEntryList\<close> and \<^verbatim>\<open>StoreServerEntries\<close> are defined
  elsewhere in the repository; \<open>'e\<close> is the decoded list of server entries.
\<close>

record ('r, 'e) fetch_env =
  httpClient_Get :: "DialConfig \<Rightarrow> string \<Rightarrow> error + 'r"
  ioutil_ReadAll :: "'r \<Rightarrow> error + string"
  json_Unmarshal :: "string \<Rightarrow> error + RemoteServerList option"
  DecodeAndValidateServerEntryList :: "string \<Rightarrow> error + 'e"
  StoreServerEntries :: "'e \<Rightarrow> bool \<Rightarrow> error option"

text \<open>What a fetch does to the world, in order.\<close>

datatype ('r, 'e) fetch_effect =
    Logged notice
  | HttpGet DialConfig string
  | BodyClose 'r
  | CallDecode string    \<comment> \<open>\<^verbatim>\<open>DecodeAndValidateServerEntryList(payload)\<close> was called\<close>
  | CallStore 'e bool    \<comment> \<open>\<^verbatim>\<open>StoreServerEntries(entries, flag)\<close> was called\<close>

fun is_downstream :: "('r, 'e) fetch_effect \<Rightarrow> bool" where
  "is_downstream (CallDecode payload) = True"
| "is_downstream (CallStore entries flag) = True"
| "is_downstream e = False"

text \<open>
  The part of FetchRemoteServerList that runs once \<^verbatim>\<open>httpClient.Get\<close> has
  returned a response, from \<^verbatim>\<open>ioutil.ReadAll\<close> to the final return. The
  dereference \<^verbatim>\<open>remoteServerList.Data\<close> would panic on a nil pointer.
\<close>

definition process_response ::
    "('r, 'e) fetch_env \<Rightarrow> crypto_lib \<Rightarrow> Config \<Rightarrow> 'r \<Rightarrow>
     error option exec \<times> ('r, 'e) fetch_effect list" where
  "process_response E L config response =
     (case ioutil_ReadAll E response of
        Inl err \<Rightarrow> (Returns (Some (ContextError err)), [])
      | Inr body \<Rightarrow>
     (case json_Unmarshal E body of
        Inl err \<Rightarrow> (Returns (Some (ContextError err)), [])
      | Inr remoteServerList \<Rightarrow>
     (case validateRemoteServerList L config remoteServerList of
        Panics p \<Rightarrow> (Panics p, [])
      | Returns (Some err) \<Rightarrow> (Returns (Some (ContextError err)), [])
      | Returns None \<Rightarrow>
     (case remoteServerList of
        None \<Rightarrow> (Panics NilPointerDereference, [])
      | Some rsl \<Rightarrow>
     (case DecodeAndValidateServerEntryList E (Data rsl) of
        Inl err \<Rightarrow> (Returns (Some (ContextError err)), [CallDecode (Data rsl)])
      | Inr serverEntries \<Rightarrow>
     (case StoreServerEntries E serverEntries True of
        Some err \<Rightarrow>
          (Returns (Some (ContextError err)),
           [CallDecode (Data rsl), CallStore serverEntries True])
      | None \<Rightarrow>
          (Returns None,
           [CallDecode (Data rsl), CallStore serverEntries True])))))))"

text \<open>
  The whole function. \<^verbatim>\<open>defer response.Body.Close()\<close> runs when the function
  leaves, by return or by panic, once there is a response.
\<close>

definition fetch_dialConfig :: "Config \<Rightarrow> nat \<Rightarrow> DialConfig" where
  "fetch_dialConfig config pendingConns =
     DialConfig (UpstreamHttpProxyAddress config) pendingConns
       (BindToDeviceProvider config) (BindToDeviceDnsServer config)"

definition FetchRemoteServerList ::
    "('r, 'e) fetch_env \<Rightarrow> crypto_lib \<Rightarrow> Config \<Rightarrow> nat \<Rightarrow>
     error option exec \<times> ('r, 'e) fetch_effect list" where
  "FetchRemoteServerList E L config pendingConns =
     (let dialConfig = fetch_dialConfig config pendingConns;
          started =
            [Logged (NoticeInfo ''fetching remote server list''),
             HttpGet dialConfig (RemoteServerListUrl config)]
      in case httpClient_Get E dialConfig (RemoteServerListUrl config) of
           Inl err \<Rightarrow> (Returns (Some (ContextError err)), started)
         | Inr response \<Rightarrow>
             (case process_response E L config response of
                (result, effects) \<Rightarrow> (result, started @ effects @ [BodyClose response])))"

text \<open>
  A stand-in for the collaborators, to run the definitions on concrete inputs:
  the transport answers with \<open>got\<close>, reading the body gives \<open>read\<close>,
  deserializing it gives \<open>parsed\<close>; the decoder returns the payload as
  the one entry and the store accepts it.
\<close>

definition stub_env ::
    "error + nat \<Rightarrow> error + string \<Rightarrow> error + RemoteServerList option \<Rightarrow>
     (nat, string list) fetch_env" where
  "stub_env got read parsed =
     \<lparr> httpClient_Get = (\<lambda>dialConfig url. got),
       ioutil_ReadAll = (\<lambda>response. read),
       json_Unmarshal = (\<lambda>body. parsed),
       DecodeAndValidateServerEntryList = (\<lambda>payload. Inr [payload]),
       StoreServerEntries = (\<lambda>entries flag. None) \<rparr>"


subsection \<open>Properties of the fetch\<close>

text \<open>
  The gate in front of the collaborators. In every run of FetchRemoteServerList:
  \<^item> if DecodeAndValidateServerEntryList is called, its argument is the Data of
    the record that was fetched, read and deserialized in this run, and
    validateRemoteServerList returned success for that very record;
  \<^item> if StoreServerEntries is called, the same holds, and its argument is what
    the decoder returned for that Data, with the flag true;
  \<^item> if the HTTP fetch, reading the body, the JSON deserialization or the
    validation returns an error, the function returns that error contextualized
    and neither collaborator is called;
  \<^item> if validation panics (a nil record), so does the function, and again
    neither collaborator is called.
\<close>

lemma FetchRemoteServerList_validates_before_use:
  "(\<forall>payload.
      CallDecode payload \<in> set (snd (FetchRemoteServerList E L config pendingConns)) \<longrightarrow>
      (\<exists>response body rsl.
         httpClient_Get E (fetch_dialConfig config pendingConns) (RemoteServerListUrl config) =
           Inr response \<and>
         ioutil_ReadAll E response = Inr body \<and>
         json_Unmarshal E body = Inr (Some rsl) \<and>
         validateRemoteServerList L config (Some rsl) = Returns None \<and>
         payload = Data rsl)) \<and>
   (\<forall>entries flag.
      CallStore entries flag \<in> set (snd (FetchRemoteServerList E L config pendingConns)) \<longrightarrow>
      (\<exists>response body rsl.
         httpClient_Get E (fetch_dialConfig config pendingConns) (RemoteServerListUrl config) =
           Inr response \<and>
         ioutil_ReadAll E response = Inr body \<and>
         json_Unmarshal E body = Inr (Some rsl) \<and>
         validateRemoteServerList L config (Some rsl) = Returns None \<and>
         DecodeAndValidateServerEntryList E (Data rsl) = Inr entries \<and> flag)) \<and>
   (\<forall>err.
      httpClient_Get E (fetch_dialConfig config pendingConns) (RemoteServerListUrl config) =
        Inl err \<longrightarrow>
      fst (FetchRemoteServerList E L config pendingConns) = Returns (Some (ContextError err)) \<and>
      filter is_downstream (snd (FetchRemoteServerList E L config pendingConns)) = []) \<and>
   (\<forall>response err.
      httpClient_Get E (fetch_dialConfig config pendingConns) (RemoteServerListUrl config) =
        Inr response \<longrightarrow>
      ioutil_ReadAll E response = Inl err \<longrightarrow>
      fst (FetchRemoteServerList E L config pendingConns) = Returns (Some (ContextError err)) \<and>
      filter is_downstream (snd (FetchRemoteServerList E L config pendingConns)) = []) \<and>
   (\<forall>response body err.
      httpClient_Get E (fetch_dialConfig config pendingConns) (RemoteServerListUrl config) =
        Inr response \<longrightarrow>
      ioutil_ReadAll E response = Inr body \<longrightarrow>
      json_Unmarshal E body = Inl err \<longrightarrow>
      fst (FetchRemoteServerList E L config pendingConns) = Returns (Some (ContextError err)) \<and>
      filter is_downstream (snd (FetchRemoteServerList E L config pendingConns)) = []) \<and>
   (\<forall>response body remoteServerList err.
      httpClient_Get E (fetch_dialConfig config pendingConns) (RemoteServerListUrl config) =
        Inr response \<longrightarrow>
      ioutil_ReadAll E response = Inr body \<longrightarrow>
      json_Unmarshal E body = Inr remoteServerList \<longrightarrow>
      validateRemoteServerList L config remoteServerList = Returns (Some err) \<longrightarrow>
      fst (FetchRemoteServerList E L config pendingConns) = Returns (Some (ContextError err)) \<and>
      filter is_downstream (snd (FetchRemoteServerList E L config pendingConns)) = []) \<and>
   (\<forall>response body remoteServerList p.
      httpClient_Get E (fetch_dialConfig config pendingConns) (RemoteServerListUrl config) =
        Inr response \<longrightarrow>
      ioutil_ReadAll E response = Inr body \<longrightarrow>
      json_Unmarshal E body = Inr remoteServerList \<longrightarrow>
      validateRemoteServerList L config remoteServerList = Panics p \<longrightarrow>
      fst (FetchRemoteServerList E L config pendingConns) = Panics p \<and>
      filter is_downstream (snd (FetchRemoteServerList E L config pendingConns)) = [])"
proof (intro conjI allI impI)
  fix payload
  assume "CallDecode payload \<in> set (snd (FetchRemoteServerList E L config pendingConns))"
  then show "\<exists>response body rsl.
         httpClient_Get E (fetch_dialConfig config pendingConns) (RemoteServerListUrl config) =
           Inr response \<and>
         ioutil_ReadAll E response = Inr body \<and>
         json_Unmarshal E body = Inr (Some rsl) \<and>
         validateRemoteServerList L config (Some rsl) = Returns None \<and>
         payload = Data rsl"
    by (auto simp add: FetchRemoteServerList_def process_response_def Let_def
             split: sum.splits exec.splits option.splits prod.splits)
next
  fix entries flag
  assume "CallStore entries flag \<in> set (snd (FetchRemoteServerList E L config pendingConns))"
  then show "\<exists>response body rsl.
         httpClient_Get E (fetch_dialConfig config pendingConns) (RemoteServerListUrl config) =
           Inr response \<and>
         ioutil_ReadAll E response = Inr body \<and>
         json_Unmarshal E body = Inr (Some rsl) \<and>
         validateRemoteServerList L config (Some rsl) = Returns None \<and>
         DecodeAndValidateServerEntryList E (Data rsl) = Inr entries \<and> flag"
    by (auto simp add: FetchRemoteServerList_def process_response_def Let_def
             split: sum.splits exec.splits option.splits prod.splits)
qed (simp_all add: FetchRemoteServerList_def process_response_def Let_def)

lemma FetchRemoteServerList_validates_before_use_witness:
  "CallDecode ''servers'' \<in> set (snd (FetchRemoteServerList
       (stub_env (Inr 0) (Inr ''body'')
          (Inr (Some \<lparr>Data = ''servers'', SigningPublicKeyDigest = [], Signature = ''#servers''\<rparr>)))
       stub_crypto (stub_config ''https://example.org/list'' ''RSA'') 7)) \<and>
   validateRemoteServerList stub_crypto (stub_config ''https://example.org/list'' ''RSA'')
     (Some \<lparr>Data = ''servers'', SigningPublicKeyDigest = [], Signature = ''#servers''\<rparr>) =
     Returns None \<and>
   fst (FetchRemoteServerList
       (stub_env (Inr 0) (Inr ''body'')
          (Inr (Some \<lparr>Data = ''servers'', SigningPublicKeyDigest = [], Signature = ''#forged''\<rparr>)))
       stub_crypto (stub_config ''https://example.org/list'' ''RSA'') 7) =
     Returns (Some (ContextError (ContextError
       (LibraryError ''crypto/rsa: verification error'')))) \<and>
   filter is_downstream (snd (FetchRemoteServerList
       (stub_env (Inr 0) (Inr ''body'')
          (Inr (Some \<lparr>Data = ''servers'', SigningPublicKeyDigest = [], Signature = ''#forged''\<rparr>)))
       stub_crypto (stub_config ''https://example.org/list'' ''RSA'') 7)) = [] \<and>
   fst (FetchRemoteServerList
       (stub_env (Inl (LibraryError ''dial tcp: i/o timeout'')) (Inr ''body'') (Inr None))
       stub_crypto (stub_config ''https://example.org/list'' ''RSA'') 7) =
     Returns (Some (ContextError (LibraryError ''dial tcp: i/o timeout'')))"
proof -
  let ?cfg = "stub_config ''https://example.org/list'' ''RSA''"
  let ?good = "\<lparr>Data = ''servers'', SigningPublicKeyDigest = [], Signature = ''#servers''\<rparr>"
  let ?forged = "\<lparr>Data = ''servers'', SigningPublicKeyDigest = [], Signature = ''#forged''\<rparr>"
  let ?Egood = "stub_env (Inr 0) (Inr ''body'') (Inr (Some ?good))"
  let ?Eforged = "stub_env (Inr 0) (Inr ''body'') (Inr (Some ?forged))"
  let ?Edown = "stub_env (Inl (LibraryError ''dial tcp: i/o timeout'')) (Inr ''body'') (Inr None)"
  have run: "snd (FetchRemoteServerList ?Egood stub_crypto ?cfg 7) =
      [Logged (NoticeInfo ''fetching remote server list''),
       HttpGet (DialConfig [] 7 None []) ''https://example.org/list'',
       CallDecode ''servers'', CallStore [''servers''] True, BodyClose 0]"
    by (simp add: FetchRemoteServerList_def process_response_def fetch_dialConfig_def
          validateRemoteServerList_def stub_env_def stub_crypto_def stub_config_def)
  have called: "CallDecode ''servers'' \<in> set (snd (FetchRemoteServerList ?Egood stub_crypto ?cfg 7))"
    by (simp add: run)
  have accepted: "validateRemoteServerList stub_crypto ?cfg (Some ?good) = Returns None"
    using FetchRemoteServerList_validates_before_use [of ?Egood stub_crypto ?cfg 7] called
    by (simp add: stub_env_def)
  have rejected: "validateRemoteServerList stub_crypto ?cfg (Some ?forged) =
      Returns (Some (ContextError (LibraryError ''crypto/rsa: verification error'')))"
    by (simp add: validateRemoteServerList_def stub_crypto_def stub_config_def)
  have stopped: "fst (FetchRemoteServerList ?Eforged stub_crypto ?cfg 7) =
        Returns (Some (ContextError (ContextError
          (LibraryError ''crypto/rsa: verification error'')))) \<and>
      filter is_downstream (snd (FetchRemoteServerList ?Eforged stub_crypto ?cfg 7)) = []"
    using FetchRemoteServerList_validates_before_use [of ?Eforged stub_crypto ?cfg 7] rejected
    by (simp add: stub_env_def)
  have down: "fst (FetchRemoteServerList ?Edown stub_crypto ?cfg 7) =
        Returns (Some (ContextError (LibraryError ''dial tcp: i/o timeout'')))"
    using FetchRemoteServerList_validates_before_use [of ?Edown stub_crypto ?cfg 7]
    by (simp add: stub_env_def)
  from called accepted stopped down show ?thesis
    by simp
qed


text \<open>
  C1 at the response body \<^verbatim>\<open>null\<close>, with an RSA key configured. Reading the
  body succeeds and \<^verbatim>\<open>json.Unmarshal\<close> returns no error, leaving the record
  pointer nil; validation then dereferences it at \<^verbatim>\<open>remoteServerList.Signature\<close>.
  Neither collaborator is called, but the function does not return a
  contextualized error, or any error: it panics, after the deferred close of
  the body.
\<close>

theorem FetchRemoteServerList_null_body_panics:
  "validateRemoteServerList stub_crypto (stub_config ''https://example.org/list'' ''RSA'') None =
     Panics NilPointerDereference \<and>
   FetchRemoteServerList (stub_env (Inr 0) (Inr ''null'') (Inr None))
       stub_crypto (stub_config ''https://example.org/list'' ''RSA'') 7 =
     (Panics NilPointerDereference,
      [Logged (NoticeInfo ''fetching remote server list''),
       HttpGet (DialConfig [] 7 None []) ''https://example.org/list'',
       BodyClose 0])"
  by (simp add: FetchRemoteServerList_def process_response_def fetch_dialConfig_def
        validateRemoteServerList_def stub_env_def stub_crypto_def stub_config_def)

section \<open>The HTTP CONNECT handshake\<close>

text \<open>
  The fields of \<^verbatim>\<open>http.Response\<close> that the code reads: \<^verbatim>\<open>Status\<close>, the
  status line behind the protocol version (such as \<^verbatim>\<open>200 OK\<close>), and
  \<^verbatim>\<open>StatusCode\<close>.
\<close>

record http_Response =
  Status :: string
  StatusCode :: int

text \<open>
  The library calls and the connection, as parameters: \<^verbatim>\<open>net.SplitHostPort\<close>,
  what \<^verbatim>\<open>rawConn.Write\<close> returns for the bytes it is given, and what
  \<^verbatim>\<open>http.ReadResponse\<close> returns when it reads from the connection.
\<close>

record proxy_io =
  net_SplitHostPort :: "string \<Rightarrow> error + string \<times> string"
  rawConn_Write :: "string \<Rightarrow> error option"
  http_ReadResponse :: "error + http_Response"

datatype conn_effect =
    ConnWrite string     \<comment> \<open>\<^verbatim>\<open>rawConn.Write\<close> was called with these bytes\<close>
  | ConnReadResponse     \<comment> \<open>\<^verbatim>\<open>http.ReadResponse\<close> was called on the connection\<close>

definition CRLF :: string where
  "CRLF = [CHR 0x0D, CHR 0x0A]"

text \<open>
  \<^verbatim>\<open>strings.SplitN(s, sep, n)\<close> for a separator of one byte and \<open>n \<ge> 0\<close>:
  nothing for \<open>n = 0\<close>; otherwise at most \<open>n\<close> pieces, cut at the first
  \<open>n - 1\<close> separators, the last piece being the unsplit rest. A text without
  the separator comes back as the single piece.
\<close>

fun SplitN :: "string \<Rightarrow> char \<Rightarrow> nat \<Rightarrow> string list" where
  "SplitN s sep 0 = []"
| "SplitN s sep (Suc n) =
     (if n = 0 \<or> sep \<notin> set s then [s]
      else takeWhile (\<lambda>c. c \<noteq> sep) s # SplitN (tl (dropWhile (\<lambda>c. c \<noteq> sep) s)) sep n)"

text \<open>Indexing a slice: out of range is a run-time panic.\<close>

definition index :: "'a list \<Rightarrow> nat \<Rightarrow> 'a exec" where
  "index xs i = (if i < length xs then Returns (xs ! i) else Panics IndexOutOfRange)"

definition HttpProxyConnect :: "proxy_io \<Rightarrow> string \<Rightarrow> error option exec \<times> conn_effect list" where
  "HttpProxyConnect io addr =
     (case net_SplitHostPort io addr of
        Inl err \<Rightarrow> (Returns (Some (ContextError err)), [])
      | Inr (hostname, port) \<Rightarrow>
          (let connectRequest =
                 ''CONNECT '' @ addr @ '' HTTP/1.1'' @ CRLF @
                 ''Host: '' @ hostname @ CRLF @
                 ''Connection: Keep-Alive'' @ CRLF @ CRLF
           in case rawConn_Write io connectRequest of
                Some err \<Rightarrow> (Returns (Some (ContextError err)), [ConnWrite connectRequest])
              | None \<Rightarrow>
             (case http_ReadResponse io of
                Inl err \<Rightarrow>
                  (Returns (Some (ContextError err)), [ConnWrite connectRequest, ConnReadResponse])
              | Inr response \<Rightarrow>
                  if StatusCode response \<noteq> 200 then
                    (case index (SplitN (Status response) (CHR '' '') 2) 1 of
                       Panics p \<Rightarrow> (Panics p, [ConnWrite connectRequest, ConnReadResponse])
                     | Returns reason \<Rightarrow>
                         (Returns (Some (ContextError (ErrorsNew reason))),
                          [ConnWrite connectRequest, ConnReadResponse]))
                  else (Returns None, [ConnWrite connectRequest, ConnReadResponse]))))"

text \<open>
  A stand-in for the connection and the library, to run the definition on
  concrete inputs: the address is cut at its colon (right for a name or an IPv4
  address with a port), the write succeeds, and the proxy's reply has been
  parsed to \<open>response\<close>.
\<close>

definition stub_proxy :: "http_Response \<Rightarrow> proxy_io" where
  "stub_proxy response =
     \<lparr> net_SplitHostPort =
         (\<lambda>addr. if CHR '':'' \<in> set addr
                 then Inr (takeWhile (\<lambda>c. c \<noteq> CHR '':'') addr,
                           tl (dropWhile (\<lambda>c. c \<noteq> CHR '':'') addr))
                 else Inl (LibraryError ''missing port in address'')),
       rawConn_Write = (\<lambda>bytes. None),
       http_ReadResponse = Inr response \<rparr>"


subsection \<open>Properties of the handshake\<close>

lemma SplitN_2_with_sep:
  "sep \<in> set s \<Longrightarrow>
   SplitN s sep 2 = [takeWhile (\<lambda>c. c \<noteq> sep) s, tl (dropWhile (\<lambda>c. c \<noteq> sep) s)]"
  by (simp add: numeral_2_eq_2)

lemma SplitN_2_without_sep: "sep \<notin> set s \<Longrightarrow> SplitN s sep 2 = [s]"
  by (simp add: numeral_2_eq_2)

lemma index_SplitN_2:
  "index (SplitN s sep 2) (Suc 0) =
     (if sep \<in> set s then Returns (tl (dropWhile (\<lambda>c. c \<noteq> sep) s))
      else Panics IndexOutOfRange)"
  by (simp add: index_def SplitN_2_with_sep SplitN_2_without_sep)

lemma dropWhile_upto_sep:
  "sep \<notin> set code \<Longrightarrow> dropWhile (\<lambda>c. c \<noteq> sep) (code @ sep # rest) = sep # rest"
  by (induction code) auto

text \<open>
  The request is the CONNECT line for \<open>addr\<close>, a Host header with the host
  part that SplitHostPort returned, and the Keep-Alive header; it is the only
  write, and the response is read only after the write succeeded.
\<close>

lemma HttpProxyConnect_writes_request:
  assumes "net_SplitHostPort io addr = Inr (hostname, port)"
  shows "snd (HttpProxyConnect io addr) =
           ConnWrite (''CONNECT '' @ addr @ '' HTTP/1.1'' @ CRLF @
                      ''Host: '' @ hostname @ CRLF @
                      ''Connection: Keep-Alive'' @ CRLF @ CRLF) #
           (if rawConn_Write io (''CONNECT '' @ addr @ '' HTTP/1.1'' @ CRLF @
                      ''Host: '' @ hostname @ CRLF @
                      ''Connection: Keep-Alive'' @ CRLF @ CRLF) = None
            then [ConnReadResponse] else [])"
  using assms
  by (simp add: HttpProxyConnect_def Let_def split: option.split sum.split exec.split)

lemma HttpProxyConnect_success_iff:
  "(fst (HttpProxyConnect io addr) = Returns None) =
     (\<exists>hostname port response.
        net_SplitHostPort io addr = Inr (hostname, port) \<and>
        rawConn_Write io (''CONNECT '' @ addr @ '' HTTP/1.1'' @ CRLF @
                      ''Host: '' @ hostname @ CRLF @
                      ''Connection: Keep-Alive'' @ CRLF @ CRLF) = None \<and>
        http_ReadResponse io = Inr response \<and> StatusCode response = 200)"
  by (auto simp add: HttpProxyConnect_def Let_def
           split: option.splits sum.splits exec.splits prod.splits)

text \<open>
  With a space in the status text, a status other than 200 is returned as an
  error whose detail is the text behind the first space.
\<close>

lemma HttpProxyConnect_non200_reason:
  assumes "net_SplitHostPort io addr = Inr (hostname, port)"
    and "rawConn_Write io (''CONNECT '' @ addr @ '' HTTP/1.1'' @ CRLF @
                      ''Host: '' @ hostname @ CRLF @
                      ''Connection: Keep-Alive'' @ CRLF @ CRLF) = None"
    and "http_ReadResponse io = Inr response"
    and "StatusCode response \<noteq> 200"
    and "Status response = code @ CHR '' '' # reason"
    and "CHR '' '' \<notin> set code"
  shows "fst (HttpProxyConnect io addr) = Returns (Some (ContextError (ErrorsNew reason)))"
proof -
  have "index (SplitN (Status response) (CHR '' '') 2) (Suc 0) = Returns reason"
    using assms(5,6) by (simp add: index_SplitN_2 dropWhile_upto_sep)
  then show ?thesis
    using assms(1-4) by (simp add: HttpProxyConnect_def Let_def)
qed

text \<open>
  Without a space in the status text, a status other than 200 is not returned
  at all: the index expression panics.
\<close>

lemma HttpProxyConnect_panics_iff:
  "(\<exists>p. fst (HttpProxyConnect io addr) = Panics p) =
     (\<exists>hostname port response.
        net_SplitHostPort io addr = Inr (hostname, port) \<and>
        rawConn_Write io (''CONNECT '' @ addr @ '' HTTP/1.1'' @ CRLF @
                      ''Host: '' @ hostname @ CRLF @
                      ''Connection: Keep-Alive'' @ CRLF @ CRLF) = None \<and>
        http_ReadResponse io = Inr response \<and> StatusCode response \<noteq> 200 \<and>
        CHR '' '' \<notin> set (Status response))"
  by (auto simp add: HttpProxyConnect_def Let_def index_SplitN_2
           split: option.splits sum.splits prod.splits if_splits)

text \<open>
  C7 at the reply \<^verbatim>\<open>HTTP/1.1 403\<close> (no reason phrase), whose status text is
  \<^verbatim>\<open>403\<close>: the request is written as the claim says and the response is read,
  but the status other than 200 is not turned into an error; the call panics.
\<close>

theorem HttpProxyConnect_403_without_reason:
  "HttpProxyConnect (stub_proxy \<lparr>Status = ''403'', StatusCode = 403\<rparr>) ''example.org:443'' =
     (Panics IndexOutOfRange,
      [ConnWrite (''CONNECT example.org:443 HTTP/1.1'' @ CRLF @
                  ''Host: example.org'' @ CRLF @
                  ''Connection: Keep-Alive'' @ CRLF @ CRLF),
       ConnReadResponse])"
  by (simp add: HttpProxyConnect_def stub_proxy_def index_SplitN_2)

text \<open>
  C8 at replies with and without a reason phrase: for the status text
  \<^verbatim>\<open>403 Forbidden\<close> the error detail is \<^verbatim>\<open>Forbidden\<close>; for the status text
  \<^verbatim>\<open>502\<close> no error is returned, with the empty reason phrase or any other
  detail, since the call panics.
\<close>

theorem HttpProxyConnect_reason_phrase_runs:
  "fst (HttpProxyConnect (stub_proxy \<lparr>Status = ''403 Forbidden'', StatusCode = 403\<rparr>)
          ''example.org:443'') =
     Returns (Some (ContextError (ErrorsNew ''Forbidden''))) \<and>
   fst (HttpProxyConnect (stub_proxy \<lparr>Status = ''502'', StatusCode = 502\<rparr>)
          ''example.org:443'') \<noteq>
     Returns (Some (ContextError (ErrorsNew []))) \<and>
   fst (HttpProxyConnect (stub_proxy \<lparr>Status = ''502'', StatusCode = 502\<rparr>)
          ''example.org:443'') =
     Panics IndexOutOfRange"
  by (simp add: HttpProxyConnect_def stub_proxy_def index_SplitN_2)

text \<open>
  C9 at the status text \<^verbatim>\<open>403\<close>: splitting it at the first space gives one
  piece, so index 1 is out of range.
\<close>

theorem SplitN_status_without_reason:
  "SplitN ''403'' (CHR '' '') 2 = [''403''] \<and>
   length (SplitN ''403'' (CHR '' '') 2) = 1 \<and>
   index (SplitN ''403'' (CHR '' '') 2) 1 = Panics IndexOutOfRange"
  by (simp add: index_def SplitN_2_without_sep)

end
